theory Spec2Isabelle
  imports Main "HOL-Library.Char_ord" "HOL-Library.List_Lexorder"
begin

section \<open>Values, errors and the semantic-version library\<close>

text \<open>
  The merger of \<^verbatim>\<open>bin/merge_package_json.py\<close> works on decoded JSON documents. A
  document is a value of \<open>json\<close>; an object is an association list in insertion order,
  as a Python dict iterates. Strings are lists of characters with code points below 256,
  ordered by code point as Python orders \<^verbatim>\<open>str\<close>. Numbers are the integers of the
  manifests; non-integral numbers are outside the model.

  Every exception of the source is a value of \<open>error\<close>; a function that can raise
  returns \<open>error + 'a\<close> with \<open>Inl\<close> for the exception.
\<close>

datatype error = ValueError | AttributeError | TypeError | IndexError | IOError | RecursionError

datatype json =
    JNull
  | JBool bool
  | JInt int
  | JStr string
  | JArr "json list"
  | JObj "(string \<times> json) list"

text \<open>
  The package \<^verbatim>\<open>semantic_version\<close> is not part of the repository. The source uses
  three things of it: the constructor \<^verbatim>\<open>NpmSpec(s)\<close>, which raises ValueError or
  yields an object whose \<^verbatim>\<open>clause\<close> is a tree of \<^verbatim>\<open>Range(operator, target)\<close> leaves
  under iterable combinators; the constructor \<^verbatim>\<open>Version(s)\<close>, which raises ValueError
  or yields a version; and the comparison \<^verbatim>\<open>>\<close> of two versions. They are the
  fields of the record \<open>semver\<close>, which every function below takes as its first
  argument; \<open>None\<close> stands for ValueError. The children of a combinator are listed in
  the order in which the library iterates over them. Clause and version objects define
  neither \<^verbatim>\<open>__bool__\<close> nor \<^verbatim>\<open>__len__\<close>, so the source's truth tests on them
  succeed.
\<close>

datatype 'v clause =
    Range string 'v
  | AllOf "'v clause list"
  | AnyOf "'v clause list"
  | Never
  | Always

record 'v semver =
  NpmSpec :: "string \<Rightarrow> 'v clause option"
  Version :: "string \<Rightarrow> 'v option"
  version_gt :: "'v \<Rightarrow> 'v \<Rightarrow> bool"

subsection \<open>Python string operations used by the source\<close>

definition starts_with :: "string \<Rightarrow> string \<Rightarrow> bool" where
  "starts_with p s = (take (length p) s = p)"

text \<open>\<^verbatim>\<open>p in s\<close> on two strings.\<close>

fun contains :: "string \<Rightarrow> string \<Rightarrow> bool" where
  "contains p [] = (p = [])"
| "contains p (c # s) = (starts_with p (c # s) \<or> contains p s)"

text \<open>\<^verbatim>\<open>s.split(sep)[0]\<close>: the text before the first occurrence of \<open>sep\<close>.\<close>

fun before :: "string \<Rightarrow> string \<Rightarrow> string" where
  "before sep [] = []"
| "before sep (c # s) = (if starts_with sep (c # s) then [] else c # before sep s)"

definition is_space :: "char \<Rightarrow> bool" where
  "is_space c = (let n = (of_char c :: nat) in
     (9 \<le> n \<and> n \<le> 13) \<or> (28 \<le> n \<and> n \<le> 32) \<or> n = 133 \<or> n = 160)"

definition strip :: "string \<Rightarrow> string" where
  "strip s = rev (dropWhile is_space (rev (dropWhile is_space s)))"

text \<open>
  \<^verbatim>\<open>s.split()[0]\<close>: the first run of characters that are not white space;
  IndexError when there is none.
\<close>

definition first_token :: "string \<Rightarrow> error + string" where
  "first_token s =
     (case dropWhile is_space s of
        [] \<Rightarrow> Inl IndexError
      | c # r \<Rightarrow> Inr (takeWhile (\<lambda>d. \<not> is_space d) (c # r)))"

text \<open>\<^verbatim>\<open>s.replace("x", "0").replace("X", "0")\<close>.\<close>

definition replace_wildcards :: "string \<Rightarrow> string" where
  "replace_wildcards s = map (\<lambda>c. if c = CHR ''x'' \<or> c = CHR ''X'' then CHR ''0'' else c) s"

text \<open>\<^verbatim>\<open>sep.join(xs)\<close> on a list of strings.\<close>

fun join :: "string \<Rightarrow> string list \<Rightarrow> string" where
  "join sep [] = []"
| "join sep [x] = x"
| "join sep (x # y # ys) = x @ sep @ join sep (y # ys)"

section \<open>Constant tables\<close>

definition DEPENDENCY_KEYS :: "string list" where
  "DEPENDENCY_KEYS =
     [''dependencies'', ''devDependencies'', ''peerDependencies'',
      ''optionalDependencies'', ''bundledDependencies'', ''bundleDependencies'']"

text \<open>\<^verbatim>\<open>PREFIX_PRIORITY.get(op, 0)\<close>.\<close>

definition PREFIX_PRIORITY :: "string \<Rightarrow> nat" where
  "PREFIX_PRIORITY op =
     (case map_of [(''^'', 4), (''~'', 3), (''>='', 2), (''>'', 1), (''='', 0), (''<='', 0), (''<'', 0)] op of
        Some p \<Rightarrow> p
      | None \<Rightarrow> 0)"

definition SPECIAL_PROTOCOLS :: "string list" where
  "SPECIAL_PROTOCOLS =
     [''workspace:'', ''git+'', ''http://'', ''https://'', ''file:'', ''github:'']"

text \<open>\<^verbatim>\<open>any(protocol in s for protocol in SPECIAL_PROTOCOLS)\<close> on a string.\<close>

definition has_protocol :: "string \<Rightarrow> bool" where
  "has_protocol s = list_ex (\<lambda>protocol. contains protocol s) SPECIAL_PROTOCOLS"

section \<open>Range normalizer, operators and anchors\<close>

definition normalize_npm_version :: "string \<Rightarrow> string" where
  "normalize_npm_version version_str =
     (if version_str \<in> set [''*'', ''latest'', ''next'', '''']
      then version_str
      else if has_protocol version_str then version_str
      else replace_wildcards version_str)"

text \<open>
  The regular expression \<^verbatim>\<open>^([\^~]|>=|<=|>|<|=)\<close> tries its alternatives from left
  to right.
\<close>

definition get_version_prefix :: "string \<Rightarrow> string" where
  "get_version_prefix version_str =
     (if starts_with ''^'' version_str then ''^''
      else if starts_with ''~'' version_str then ''~''
      else if starts_with ''>='' version_str then ''>=''
      else if starts_with ''<='' version_str then ''<=''
      else if starts_with ''>'' version_str then ''>''
      else if starts_with ''<'' version_str then ''<''
      else if starts_with ''='' version_str then ''=''
      else ''='')"

text \<open>
  The inner function \<^verbatim>\<open>find_first_range\<close> of the source: depth first, children in
  iteration order, the first \<^verbatim>\<open>Range\<close> wins.
\<close>

fun find_first_range :: "'v clause \<Rightarrow> (string \<times> 'v) option"
  and find_first_range_list :: "'v clause list \<Rightarrow> (string \<times> 'v) option" where
  "find_first_range (Range operator target) = Some (operator, target)"
| "find_first_range (AllOf items) = find_first_range_list items"
| "find_first_range (AnyOf items) = find_first_range_list items"
| "find_first_range Never = None"
| "find_first_range Always = None"
| "find_first_range_list [] = None"
| "find_first_range_list (item # items) =
     (case find_first_range item of
        Some r \<Rightarrow> Some r
      | None \<Rightarrow> find_first_range_list items)"

definition get_operator_from_range :: "'v clause \<Rightarrow> string" where
  "get_operator_from_range clause =
     (case clause of
        Range operator target \<Rightarrow> operator
      | _ \<Rightarrow> (case find_first_range clause of
                Some (operator, target) \<Rightarrow> operator
              | None \<Rightarrow> ''=''))"

definition search_spec_clause_for_version :: "'v clause \<Rightarrow> 'v option" where
  "search_spec_clause_for_version clause =
     (case clause of
        Range operator target \<Rightarrow> Some target
      | _ \<Rightarrow> (case find_first_range clause of
                Some (operator, target) \<Rightarrow> Some target
              | None \<Rightarrow> None))"

text \<open>
  The textual fallback of \<^verbatim>\<open>_extract_version_from_spec\<close>. The IndexError of
  \<^verbatim>\<open>cleaned.split()[0]\<close> is not among the exceptions the source catches.
\<close>

definition version_from_text :: "'v semver \<Rightarrow> string \<Rightarrow> error + 'v option" where
  "version_from_text L original_str =
     (let cleaned = dropWhile (\<lambda>c. c \<in> set ''^~>=<'') original_str;
          cleaned = (if contains ''||'' cleaned then strip (before ''||'' cleaned) else cleaned);
          cleaned = (if contains '' - '' cleaned then strip (before '' - '' cleaned) else cleaned)
      in case (if contains '' '' cleaned
               then map_sum id strip (first_token cleaned)
               else Inr (strip cleaned)) of
           Inl e \<Rightarrow> Inl e
         | Inr cleaned \<Rightarrow> Inr (Version L (replace_wildcards cleaned)))"

definition extract_version_from_spec :: "'v semver \<Rightarrow> 'v clause \<Rightarrow> string \<Rightarrow> error + 'v option" where
  "extract_version_from_spec L spec original_str =
     (if original_str \<in> set [''*'', ''latest'', '''', ''next''] then Inr None
      else if has_protocol original_str then Inr None
      else case search_spec_clause_for_version spec of
             Some version \<Rightarrow> Inr (Some version)
           | None \<Rightarrow> version_from_text L original_str)"

section \<open>Permissiveness comparator\<close>

text \<open>
  The \<^verbatim>\<open>try\<close> block of \<^verbatim>\<open>compare_npm_specs\<close> catches ValueError and AttributeError
  and then returns 0; any other exception leaves the function.
\<close>

definition compare_npm_specs :: "'v semver \<Rightarrow> string \<Rightarrow> string \<Rightarrow> error + int" where
  "compare_npm_specs L base_version update_version =
     (case NpmSpec L (normalize_npm_version base_version) of
        None \<Rightarrow> Inr 0
      | Some base_spec \<Rightarrow>
         (case NpmSpec L (normalize_npm_version update_version) of
            None \<Rightarrow> Inr 0
          | Some update_spec \<Rightarrow>
             (case extract_version_from_spec L base_spec base_version of
                Inl e \<Rightarrow> Inl e
              | Inr base_ver \<Rightarrow>
                 (case extract_version_from_spec L update_spec update_version of
                    Inl e \<Rightarrow> Inl e
                  | Inr update_ver \<Rightarrow>
                     (case (base_ver, update_ver) of
                        (None, None) \<Rightarrow> Inr 0
                      | (None, Some u) \<Rightarrow> Inr 1
                      | (Some b, None) \<Rightarrow> Inr (- 1)
                      | (Some b, Some u) \<Rightarrow>
                          if version_gt L u b then Inr 1
                          else if version_gt L b u then Inr (- 1)
                          else Inr 0)))))"

section \<open>Dependency version merger\<close>

text \<open>
  The last part of \<^verbatim>\<open>merge_dependency_versions\<close>, entered when the comparator
  returned 0: the \<^verbatim>\<open>try\<close> block that compares operator priorities. A ValueError of
  \<^verbatim>\<open>NpmSpec\<close> is caught and selects the update.
\<close>

definition tie_break :: "'v semver \<Rightarrow> string \<Rightarrow> string \<Rightarrow> string" where
  "tie_break L base_version update_version =
     (case NpmSpec L (normalize_npm_version base_version) of
        None \<Rightarrow> update_version
      | Some base_spec \<Rightarrow>
         (case NpmSpec L (normalize_npm_version update_version) of
            None \<Rightarrow> update_version
          | Some update_spec \<Rightarrow>
             (let base_operator = get_operator_from_range base_spec;
                  update_operator = get_operator_from_range update_spec;
                  base_prefix = get_version_prefix base_version;
                  update_prefix = get_version_prefix update_version;
                  base_op = (if base_prefix \<in> set [''^'', ''~''] then base_prefix else base_operator);
                  update_op = (if update_prefix \<in> set [''^'', ''~''] then update_prefix else update_operator);
                  base_priority = PREFIX_PRIORITY base_op;
                  update_priority = PREFIX_PRIORITY update_op
              in if update_priority > base_priority then update_version else base_version)))"

text \<open>
  The values of a dependency object come from a decoded document and need not be
  strings. \<^verbatim>\<open>v in ("*", "latest")\<close> compares by equality and is defined on every
  value; \<^verbatim>\<open>protocol in v\<close> is substring search on a string, membership on a list,
  key membership on an object, and raises TypeError on null, a boolean or a number.
\<close>

definition is_wild :: "json \<Rightarrow> bool" where
  "is_wild v = (v \<in> set [JStr ''*'', JStr ''latest''])"

fun any_protocol_in :: "json \<Rightarrow> error + bool" where
  "any_protocol_in (JStr s) = Inr (has_protocol s)"
| "any_protocol_in (JArr xs) = Inr (list_ex (\<lambda>protocol. JStr protocol \<in> set xs) SPECIAL_PROTOCOLS)"
| "any_protocol_in (JObj kvs) = Inr (list_ex (\<lambda>protocol. protocol \<in> set (map fst kvs)) SPECIAL_PROTOCOLS)"
| "any_protocol_in JNull = Inl TypeError"
| "any_protocol_in (JBool b) = Inl TypeError"
| "any_protocol_in (JInt i) = Inl TypeError"

text \<open>
  When a list or an object reaches the comparison (it holds no protocol marker then),
  \<^verbatim>\<open>normalize_npm_version\<close> fails on its missing \<^verbatim>\<open>replace\<close> with AttributeError
  inside both \<^verbatim>\<open>try\<close> blocks: the comparator returns 0 and the tie-break selects the
  update.
\<close>

definition merge_dependency_versions :: "'v semver \<Rightarrow> json \<Rightarrow> json \<Rightarrow> error + json" where
  "merge_dependency_versions L base_version update_version =
     (if is_wild base_version \<and> \<not> is_wild update_version then Inr update_version
      else if is_wild update_version \<and> \<not> is_wild base_version then Inr base_version
      else case any_protocol_in base_version of
             Inl e \<Rightarrow> Inl e
           | Inr True \<Rightarrow> Inr update_version
           | Inr False \<Rightarrow>
              (case any_protocol_in update_version of
                 Inl e \<Rightarrow> Inl e
               | Inr True \<Rightarrow> Inr update_version
               | Inr False \<Rightarrow>
                  (case (base_version, update_version) of
                     (JStr b, JStr u) \<Rightarrow>
                       (case compare_npm_specs L b u of
                          Inl e \<Rightarrow> Inl e
                        | Inr comparison \<Rightarrow>
                            if comparison > 0 then Inr update_version
                            else if comparison < 0 then Inr base_version
                            else Inr (JStr (tie_break L b u)))
                   | _ \<Rightarrow> Inr update_version)))"

section \<open>Dependency map merger\<close>

text \<open>\<^verbatim>\<open>d[k] = v\<close> on a dict: an existing key keeps its position, a new key goes last.\<close>

fun dict_set :: "(string \<times> 'a) list \<Rightarrow> string \<Rightarrow> 'a \<Rightarrow> (string \<times> 'a) list" where
  "dict_set [] k v = [(k, v)]"
| "dict_set ((k', v') # kvs) k v =
     (if k' = k then (k, v) # kvs else (k', v') # dict_set kvs k v)"

fun merge_dependencies_loop ::
  "'v semver \<Rightarrow> (string \<times> json) list \<Rightarrow> (string \<times> json) list \<Rightarrow> error + (string \<times> json) list" where
  "merge_dependencies_loop L result [] = Inr result"
| "merge_dependencies_loop L result ((package, version) # rest) =
     (case map_of result package of
        Some current \<Rightarrow>
          (case merge_dependency_versions L current version of
             Inl e \<Rightarrow> Inl e
           | Inr merged \<Rightarrow> merge_dependencies_loop L (dict_set result package merged) rest)
      | None \<Rightarrow> merge_dependencies_loop L (dict_set result package version) rest)"

text \<open>
  \<^verbatim>\<open>base.copy()\<close> exists on objects and lists only; \<^verbatim>\<open>updates.items()\<close> exists on
  objects only; a list copied as the result raises TypeError at the first
  \<^verbatim>\<open>result[package]\<close>.
\<close>

fun merge_dependencies :: "'v semver \<Rightarrow> json \<Rightarrow> json \<Rightarrow> error + json" where
  "merge_dependencies L (JObj base) (JObj updates) =
     map_sum id JObj (merge_dependencies_loop L base updates)"
| "merge_dependencies L (JArr base) (JObj []) = Inr (JArr base)"
| "merge_dependencies L (JArr base) (JObj (u # us)) = Inl TypeError"
| "merge_dependencies L base updates = Inl AttributeError"

section \<open>Python equality, ordering, sets and sorting on decoded values\<close>

text \<open>
  A boolean is the integer 0 or 1 in every comparison. Equality never raises; objects
  are equal when they have the same keys with equal values. \<^verbatim>\<open><\<close> is defined between
  two numbers, two strings and two lists (at the first position where the elements
  differ, else by length) and raises TypeError on everything else, null against null and
  object against object included.
\<close>

fun num_of :: "json \<Rightarrow> int option" where
  "num_of (JInt i) = Some i"
| "num_of (JBool b) = Some (if b then 1 else 0)"
| "num_of v = None"

fun py_eq :: "json \<Rightarrow> json \<Rightarrow> bool" where
  "py_eq JNull JNull = True"
| "py_eq (JStr a) (JStr b) = (a = b)"
| "py_eq (JArr xs) (JArr ys) = list_all2 py_eq xs ys"
| "py_eq (JObj a) (JObj b) =
     (length a = length b \<and>
      list_all (\<lambda>(k, v). case map_of b k of None \<Rightarrow> False | Some w \<Rightarrow> py_eq v w) a)"
| "py_eq a b = (case (num_of a, num_of b) of (Some m, Some n) \<Rightarrow> m = n | _ \<Rightarrow> False)"

fun py_lt :: "json \<Rightarrow> json \<Rightarrow> error + bool"
  and py_lt_list :: "json list \<Rightarrow> json list \<Rightarrow> error + bool" where
  "py_lt (JStr a) (JStr b) = Inr (a < b)"
| "py_lt (JArr xs) (JArr ys) = py_lt_list xs ys"
| "py_lt a b = (case (num_of a, num_of b) of (Some m, Some n) \<Rightarrow> Inr (m < n) | _ \<Rightarrow> Inl TypeError)"
| "py_lt_list [] [] = Inr False"
| "py_lt_list [] (y # ys) = Inr True"
| "py_lt_list (x # xs) [] = Inr False"
| "py_lt_list (x # xs) (y # ys) = (if py_eq x y then py_lt_list xs ys else py_lt x y)"

text \<open>
  \<^verbatim>\<open>sorted(xs)\<close> is a stable sort by \<^verbatim>\<open><\<close> that raises what a comparison raises. It
  is modelled as a stable insertion sort. Where every two elements can be compared, all
  stable sorts return the same list; on a list of two elements every sort compares the
  two. Which comparisons the built-in makes on a longer list with elements that cannot
  all be compared is not modelled, and no theorem below depends on it.
\<close>

fun py_insort :: "json \<Rightarrow> json list \<Rightarrow> error + json list" where
  "py_insort x [] = Inr [x]"
| "py_insort x (y # ys) =
     (case py_lt y x of
        Inl e \<Rightarrow> Inl e
      | Inr True \<Rightarrow> map_sum id (\<lambda>r. y # r) (py_insort x ys)
      | Inr False \<Rightarrow> Inr (x # y # ys))"

fun py_sorted :: "json list \<Rightarrow> error + json list" where
  "py_sorted [] = Inr []"
| "py_sorted (x # xs) =
     (case py_sorted xs of
        Inl e \<Rightarrow> Inl e
      | Inr ys \<Rightarrow> py_insort x ys)"

text \<open>
  \<^verbatim>\<open>list(set(xs))\<close>: TypeError when an element is a list or an object (unhashable);
  otherwise one element of each class of equal elements, the first inserted. A set
  iterates in an order of its own; the model lists the elements in insertion order, and
  the source sorts the list afterwards.
\<close>

fun hashable :: "json \<Rightarrow> bool" where
  "hashable (JArr xs) = False"
| "hashable (JObj kvs) = False"
| "hashable v = True"

fun set_add_all :: "json list \<Rightarrow> json list \<Rightarrow> json list" where
  "set_add_all seen [] = seen"
| "set_add_all seen (x # xs) =
     set_add_all (if list_ex (py_eq x) seen then seen else seen @ [x]) xs"

definition py_list_set :: "json list \<Rightarrow> error + json list" where
  "py_list_set xs = (if list_all hashable xs then Inr (set_add_all [] xs) else Inl TypeError)"

text \<open>
  \<^verbatim>\<open>sorted(v)\<close> iterates over \<open>v\<close>: the elements of a list, the characters of a
  string, the keys of an object; TypeError on null, a boolean or a number.
  \<^verbatim>\<open>":".join(ys)\<close> raises TypeError unless every item is a string.
\<close>

fun py_iter :: "json \<Rightarrow> error + json list" where
  "py_iter (JArr xs) = Inr xs"
| "py_iter (JStr s) = Inr (map (\<lambda>c. JStr [c]) s)"
| "py_iter (JObj kvs) = Inr (map (\<lambda>kv. JStr (fst kv)) kvs)"
| "py_iter v = Inl TypeError"

fun str_of :: "json \<Rightarrow> string option" where
  "str_of (JStr s) = Some s"
| "str_of v = None"

definition py_join :: "string \<Rightarrow> json list \<Rightarrow> error + string" where
  "py_join sep ys =
     (if list_all (\<lambda>y. str_of y \<noteq> None) ys
      then Inr (join sep (List.map_filter str_of ys))
      else Inl TypeError)"

section \<open>List merge strategy\<close>

text \<open>\<^verbatim>\<open>":".join(sorted(item["files"]))\<close>.\<close>

definition dedup_key :: "json \<Rightarrow> error + string" where
  "dedup_key files =
     (case py_iter files of
        Inl e \<Rightarrow> Inl e
      | Inr xs \<Rightarrow>
         (case py_sorted xs of
            Inl e \<Rightarrow> Inl e
          | Inr ys \<Rightarrow> py_join '':'' ys))"

text \<open>The first loop of the overrides branch: base items, a later one replacing an earlier.\<close>

fun add_base_items :: "(string \<times> json) list \<Rightarrow> json list \<Rightarrow> error + (string \<times> json) list" where
  "add_base_items dedup_dict [] = Inr dedup_dict"
| "add_base_items dedup_dict (item # items) =
     (case item of
        JObj kvs \<Rightarrow>
          (case map_of kvs ''files'' of
             Some files \<Rightarrow>
               (case dedup_key files of
                  Inl e \<Rightarrow> Inl e
                | Inr k \<Rightarrow> add_base_items (dict_set dedup_dict k item) items)
           | None \<Rightarrow> add_base_items dedup_dict items)
      | _ \<Rightarrow> add_base_items dedup_dict items)"

text \<open>The second loop: update items, only under keys not yet present.\<close>

fun add_update_items :: "(string \<times> json) list \<Rightarrow> json list \<Rightarrow> error + (string \<times> json) list" where
  "add_update_items dedup_dict [] = Inr dedup_dict"
| "add_update_items dedup_dict (item # items) =
     (case item of
        JObj kvs \<Rightarrow>
          (case map_of kvs ''files'' of
             Some files \<Rightarrow>
               (case dedup_key files of
                  Inl e \<Rightarrow> Inl e
                | Inr k \<Rightarrow>
                    add_update_items
                      (if k \<in> set (map fst dedup_dict) then dedup_dict else dict_set dedup_dict k item)
                      items)
           | None \<Rightarrow> add_update_items dedup_dict items)
      | _ \<Rightarrow> add_update_items dedup_dict items)"

text \<open>
  \<^verbatim>\<open>dict(sorted(dedup_dict.items()))\<close> orders the pairs by key: the keys of a dict are
  distinct, so no comparison of two pairs reaches the items.
\<close>

definition merge_overrides :: "json list \<Rightarrow> json list \<Rightarrow> error + json list" where
  "merge_overrides base_val value =
     (case add_base_items [] base_val of
        Inl e \<Rightarrow> Inl e
      | Inr dedup_dict \<Rightarrow>
         (case add_update_items dedup_dict value of
            Inl e \<Rightarrow> Inl e
          | Inr dedup_dict \<Rightarrow> Inr (map snd (sort_key fst dedup_dict))))"

text \<open>
  The regular branch: \<^verbatim>\<open>suppress(TypeError)\<close> covers the conversion to a set only;
  \<^verbatim>\<open>sorted\<close> runs outside it.
\<close>

definition merge_lists :: "json list \<Rightarrow> json list \<Rightarrow> error + json list" where
  "merge_lists base_val value =
     (let merged_list = base_val @ value;
          merged_list = (case py_list_set merged_list of Inl e \<Rightarrow> merged_list | Inr d \<Rightarrow> d)
      in py_sorted merged_list)"

section \<open>Generic deep merger\<close>

text \<open>
  \<^verbatim>\<open>deep_merge\<close> copies the base and lets \<^verbatim>\<open>_deep_merge_value\<close> update the copy for
  each pair of the updates in turn; the first argument of the model is the running
  result, which starts as the base.
\<close>

fun deep_merge ::
    "'v semver \<Rightarrow> (string \<times> json) list \<Rightarrow> (string \<times> json) list \<Rightarrow> string \<Rightarrow> error + (string \<times> json) list"
  and deep_merge_value ::
    "'v semver \<Rightarrow> string \<Rightarrow> json \<Rightarrow> (string \<times> json) list \<Rightarrow> string \<Rightarrow> error + (string \<times> json) list" where
  "deep_merge L base [] list_strategy = Inr base"
| "deep_merge L base ((key, value) # updates) list_strategy =
     (case deep_merge_value L key value base list_strategy of
        Inl e \<Rightarrow> Inl e
      | Inr result \<Rightarrow> deep_merge L result updates list_strategy)"
| "deep_merge_value L key value result list_strategy =
     (case map_of result key of
        None \<Rightarrow> Inr (dict_set result key value)
      | Some base_val \<Rightarrow>
          if key \<in> set DEPENDENCY_KEYS
          then map_sum id (dict_set result key) (merge_dependencies L base_val value)
          else (case value of
                  JObj u \<Rightarrow>
                    (case base_val of
                       JObj b \<Rightarrow> map_sum id (\<lambda>m. dict_set result key (JObj m)) (deep_merge L b u list_strategy)
                     | _ \<Rightarrow> Inr (dict_set result key value))
                | JArr u \<Rightarrow>
                    (case base_val of
                       JArr b \<Rightarrow>
                         if list_strategy = ''merge''
                         then if key = ''overrides''
                              then map_sum id (\<lambda>m. dict_set result key (JArr m)) (merge_overrides b u)
                              else map_sum id (\<lambda>m. dict_set result key (JArr m)) (merge_lists b u)
                         else Inr (dict_set result key value)
                     | _ \<Rightarrow> Inr (dict_set result key value))
                | _ \<Rightarrow> Inr (dict_set result key value)))"

section \<open>Merging files\<close>

text \<open>
  The file system is a function from a path to the decoded content of the file, or to
  the exception of \<^verbatim>\<open>read_text\<close> or \<^verbatim>\<open>json.loads\<close>. Each call of
  \<^verbatim>\<open>load_package_json\<close> and of \<^verbatim>\<open>deep_merge\<close> in \<^verbatim>\<open>merge_package_json_files\<close> is
  recorded in a trace, returned beside the result.
\<close>

datatype event = ReadFile string | MergeStep

definition load_package_json :: "(string \<Rightarrow> error + json) \<Rightarrow> string \<Rightarrow> error + (string \<times> json) list" where
  "load_package_json fs filepath =
     (case fs filepath of
        Inl e \<Rightarrow> Inl e
      | Inr (JObj content) \<Rightarrow> Inr content
      | Inr _ \<Rightarrow> Inl TypeError)"

fun merge_remaining_files ::
  "'v semver \<Rightarrow> (string \<Rightarrow> error + json) \<Rightarrow> event list \<Rightarrow> (string \<times> json) list \<Rightarrow> string list \<Rightarrow> string
     \<Rightarrow> event list \<times> (error + (string \<times> json) list)" where
  "merge_remaining_files L fs trace result [] list_strategy = (trace, Inr result)"
| "merge_remaining_files L fs trace result (filepath # filepaths) list_strategy =
     (case load_package_json fs filepath of
        Inl e \<Rightarrow> (trace @ [ReadFile filepath], Inl e)
      | Inr updates \<Rightarrow>
         (case deep_merge L result updates list_strategy of
            Inl e \<Rightarrow> (trace @ [ReadFile filepath, MergeStep], Inl e)
          | Inr result' \<Rightarrow>
              merge_remaining_files L fs (trace @ [ReadFile filepath, MergeStep]) result' filepaths list_strategy))"

definition merge_package_json_files ::
  "'v semver \<Rightarrow> (string \<Rightarrow> error + json) \<Rightarrow> string list \<Rightarrow> string
     \<Rightarrow> event list \<times> (error + (string \<times> json) list)" where
  "merge_package_json_files L fs filepaths list_strategy =
     (case filepaths of
        [] \<Rightarrow> ([], Inr [])
      | first # others \<Rightarrow>
         (case load_package_json fs first of
            Inl e \<Rightarrow> ([ReadFile first], Inl e)
          | Inr result \<Rightarrow> merge_remaining_files L fs [ReadFile first] result others list_strategy))"

section \<open>An excerpt of the library for concrete evaluation\<close>

text \<open>
  Versions as triples of major, minor and patch number, ordered lexicographically, and
  the range specs the library builds for the strings of the examples. The empty string
  and \<open>*\<close> are the range from the zero version on. The library keeps the two ranges
  of a caret or tilde string in a set; \<open>^0.1.0\<close> and \<open>~0.1.0\<close> yield the same two
  ranges, from \<open>0.1.0\<close> up to \<open>0.2.0\<close>, so the first range found is the same on both
  sides whichever the set iterates first. Strings outside the table count as rejected;
  of these the examples below use \<open>next\<close> only, which matches no range block of the
  library's grammar.
\<close>

definition triple_gt :: "nat \<times> nat \<times> nat \<Rightarrow> nat \<times> nat \<times> nat \<Rightarrow> bool" where
  "triple_gt a b =
     (case (a, b) of
        ((a1, a2, a3), (b1, b2, b3)) \<Rightarrow>
          b1 < a1 \<or> (b1 = a1 \<and> (b2 < a2 \<or> (b2 = a2 \<and> b3 < a3))))"

definition semver_excerpt :: "(nat \<times> nat \<times> nat) semver" where
  "semver_excerpt = \<lparr>
     NpmSpec = map_of
       [(''1.0.0'', AllOf [Range ''=='' (1, 0, 0)]),
        (''2.0.0'', AllOf [Range ''=='' (2, 0, 0)]),
        (''>=1.0.0'', AllOf [Range ''>='' (1, 0, 0)]),
        (''>1.0.0'', AllOf [Range ''>'' (1, 0, 0)]),
        (''<=1.0.0'', AllOf [Range ''<='' (1, 0, 0)]),
        (''^0.1.0'', AllOf [Range ''>='' (0, 1, 0), Range ''<'' (0, 2, 0)]),
        (''~0.1.0'', AllOf [Range ''>='' (0, 1, 0), Range ''<'' (0, 2, 0)]),
        (''*'', AllOf [Range ''>='' (0, 0, 0)]),
        ([], AllOf [Range ''>='' (0, 0, 0)])],
     Version = map_of [(''1.0.0'', (1, 0, 0)), (''2.0.0'', (2, 0, 0))],
     version_gt = triple_gt \<rparr>"

section \<open>The anchor of the specification\<close>

text \<open>
  The anchor of a raw range string as section 4.3 of the specification describes it, for
  comparison with what the comparator of the source does: a special token or a protocol
  string has none; otherwise the target of the first range of the parsed spec; the
  textual heuristic when parsing or the walk fails; none when that fails too.
\<close>

definition spec_anchor :: "'v semver \<Rightarrow> string \<Rightarrow> 'v option" where
  "spec_anchor L s =
     (if s \<in> set [''*'', ''latest'', ''next'', ''''] \<or> has_protocol s then None
      else case (case NpmSpec L (normalize_npm_version s) of
                   None \<Rightarrow> None
                 | Some spec \<Rightarrow> find_first_range spec) of
             Some (operator, target) \<Rightarrow> Some target
           | None \<Rightarrow> (case version_from_text L s of Inr (Some v) \<Rightarrow> Some v | _ \<Rightarrow> None))"

section \<open>Override entries\<close>



section \<open>Documents the merger accepts\<close>








section \<open>The deep merger on a bounded stack\<close>




section \<open>Properties of the version merger\<close>

lemma compare_npm_specs_update_fails:
  "NpmSpec L (normalize_npm_version u) = None \<Longrightarrow> compare_npm_specs L b u = Inr 0"
  by (simp add: compare_npm_specs_def split: option.splits)

lemma compare_npm_specs_base_fails:
  "NpmSpec L (normalize_npm_version b) = None \<Longrightarrow> compare_npm_specs L b u = Inr 0"
  by (simp add: compare_npm_specs_def)

lemma tie_break_update_fails:
  "NpmSpec L (normalize_npm_version u) = None \<Longrightarrow> tie_break L b u = u"
  by (simp add: tie_break_def split: option.splits)

lemma tie_break_base_fails:
  "NpmSpec L (normalize_npm_version b) = None \<Longrightarrow> tie_break L b u = u"
  by (simp add: tie_break_def)

lemma tie_break_cases: "tie_break L b u = b \<or> tie_break L b u = u"
  by (simp add: tie_break_def Let_def split: option.splits)

lemma is_wild_JStr: "is_wild (JStr s) = (s = ''*'' \<or> s = ''latest'')"
  by (auto simp: is_wild_def)

text \<open>The merger on two strings, with the membership tests evaluated.\<close>

lemma merge_dependency_versions_strings:
  "merge_dependency_versions L (JStr b) (JStr u) =
     (if is_wild (JStr b) \<and> \<not> is_wild (JStr u) then Inr (JStr u)
      else if is_wild (JStr u) \<and> \<not> is_wild (JStr b) then Inr (JStr b)
      else if has_protocol b \<or> has_protocol u then Inr (JStr u)
      else case compare_npm_specs L b u of
             Inl e \<Rightarrow> Inl e
           | Inr c \<Rightarrow> Inr (JStr (if c > 0 then u else if c < 0 then b else tie_break L b u)))"
  by (simp add: merge_dependency_versions_def split: sum.splits bool.splits)

lemma extract_version_from_spec_empty: "extract_version_from_spec L spec [] = Inr None"
  by (simp add: extract_version_from_spec_def)

lemma normalize_npm_version_empty: "normalize_npm_version [] = []"
  by (simp add: normalize_npm_version_def)

lemma has_protocol_empty: "\<not> has_protocol []"
  by (simp add: has_protocol_def SPECIAL_PROTOCOLS_def list_ex_iff)

text \<open>
  C9, as amended. An update string that is neither \<open>*\<close> nor \<open>latest\<close>, holds no
  protocol marker and is rejected by \<^verbatim>\<open>NpmSpec\<close> (as \<open>next\<close> is) displaces every
  base string: the comparator returns 0 for the pair and the merger returns the update.
  The empty string is not such an update. Where the library constructs a spec for it,
  it has no anchor, and a base string with an anchor that is neither a wildcard nor a
  protocol string is returned: the comparator returns -1.
\<close>

theorem unparsable_update_wins:
  "(u \<noteq> ''*'' \<and> u \<noteq> ''latest'' \<and> \<not> has_protocol u \<and>
    NpmSpec L (normalize_npm_version u) = None \<longrightarrow>
      compare_npm_specs L b u = Inr 0 \<and>
      merge_dependency_versions L (JStr b) (JStr u) = Inr (JStr u)) \<and>
   (b \<noteq> ''*'' \<and> b \<noteq> ''latest'' \<and> \<not> has_protocol b \<and>
    NpmSpec L (normalize_npm_version b) = Some base_spec \<and>
    extract_version_from_spec L base_spec b = Inr (Some anchor) \<and>
    NpmSpec L [] = Some empty_spec \<longrightarrow>
      compare_npm_specs L b [] = Inr (- 1) \<and>
      merge_dependency_versions L (JStr b) (JStr []) = Inr (JStr b))"
proof (intro conjI impI)
  assume a: "u \<noteq> ''*'' \<and> u \<noteq> ''latest'' \<and> \<not> has_protocol u \<and>
    NpmSpec L (normalize_npm_version u) = None"
  then show c: "compare_npm_specs L b u = Inr 0"
    by (simp add: compare_npm_specs_update_fails)
  from a show "merge_dependency_versions L (JStr b) (JStr u) = Inr (JStr u)"
    by (simp add: merge_dependency_versions_strings is_wild_JStr c tie_break_update_fails)
next
  assume a: "b \<noteq> ''*'' \<and> b \<noteq> ''latest'' \<and> \<not> has_protocol b \<and>
    NpmSpec L (normalize_npm_version b) = Some base_spec \<and>
    extract_version_from_spec L base_spec b = Inr (Some anchor) \<and>
    NpmSpec L [] = Some empty_spec"
  then show c: "compare_npm_specs L b [] = Inr (- 1)"
    by (simp add: compare_npm_specs_def normalize_npm_version_empty
        extract_version_from_spec_empty)
  from a show "merge_dependency_versions L (JStr b) (JStr []) = Inr (JStr b)"
    by (simp add: merge_dependency_versions_strings is_wild_JStr c has_protocol_empty)
qed

theorem unparsable_update_wins_witness:
  "NpmSpec semver_excerpt (normalize_npm_version ''next'') = None \<and>
   \<not> has_protocol ''next'' \<and>
   merge_dependency_versions semver_excerpt (JStr ''1.0.0'') (JStr ''next'') = Inr (JStr ''next'') \<and>
   NpmSpec semver_excerpt (normalize_npm_version ''1.0.0'') = Some (AllOf [Range ''=='' (1, 0, 0)]) \<and>
   extract_version_from_spec semver_excerpt (AllOf [Range ''=='' (1, 0, 0)]) ''1.0.0'' =
     Inr (Some (1, 0, 0)) \<and>
   NpmSpec semver_excerpt [] = Some (AllOf [Range ''>='' (0, 0, 0)]) \<and>
   merge_dependency_versions semver_excerpt (JStr ''1.0.0'') (JStr []) = Inr (JStr ''1.0.0'')"
proof -
  have a: "\<not> has_protocol ''next''" "\<not> has_protocol ''1.0.0''" by code_simp+
  have b: "NpmSpec semver_excerpt (normalize_npm_version ''next'') = None" by code_simp
  have c: "NpmSpec semver_excerpt (normalize_npm_version ''1.0.0'') = Some (AllOf [Range ''=='' (1, 0, 0)])"
    by code_simp
  have d: "extract_version_from_spec semver_excerpt (AllOf [Range ''=='' (1, 0, 0)]) ''1.0.0'' =
     Inr (Some (1, 0, 0))"
    by code_simp
  have e: "NpmSpec semver_excerpt [] = Some (AllOf [Range ''>='' (0, 0, 0)])" by code_simp
  have 1: "merge_dependency_versions semver_excerpt (JStr ''1.0.0'') (JStr ''next'') = Inr (JStr ''next'')"
    using unparsable_update_wins [of "''next''" semver_excerpt "''1.0.0''"] a b by simp
  have 2: "merge_dependency_versions semver_excerpt (JStr ''1.0.0'') (JStr []) = Inr (JStr ''1.0.0'')"
    using unparsable_update_wins [of _ semver_excerpt "''1.0.0''" "AllOf [Range ''=='' (1, 0, 0)]"
        "(1, 0, 0)" "AllOf [Range ''>='' (0, 0, 0)]"] a c d e
    by simp
  from a b c d e 1 2 show ?thesis by simp
qed

text \<open>
  The claim C9 as stated fails for the empty string, which it names as an update whose
  range spec cannot be constructed: the library constructs the range from the zero
  version on, the comparator returns -1 and the base \<open>1.0.0\<close> is kept.
\<close>

theorem empty_update_counterexample:
  "NpmSpec semver_excerpt (normalize_npm_version []) = Some (AllOf [Range ''>='' (0, 0, 0)]) \<and>
   \<not> has_protocol [] \<and>
   compare_npm_specs semver_excerpt ''1.0.0'' [] = Inr (- 1) \<and>
   merge_dependency_versions semver_excerpt (JStr ''1.0.0'') (JStr []) = Inr (JStr ''1.0.0'')"
  by code_simp

lemma search_spec_clause_for_version_eq:
  "search_spec_clause_for_version c = map_option snd (find_first_range c)"
  by (cases c) (auto simp: search_spec_clause_for_version_def split: option.splits)

lemma get_operator_from_range_eq:
  "get_operator_from_range c = (case find_first_range c of Some (operator, target) \<Rightarrow> operator | None \<Rightarrow> ''='')"
  by (cases c) (auto simp: get_operator_from_range_def split: option.splits)

lemma extract_version_from_spec_total:
  "find_first_range c \<noteq> None \<Longrightarrow> \<exists>a. extract_version_from_spec L c s = Inr a"
  by (auto simp: extract_version_from_spec_def search_spec_clause_for_version_eq split: option.splits)

lemma compare_npm_specs_total:
  assumes "\<forall>s c. NpmSpec L s = Some c \<longrightarrow> find_first_range c \<noteq> None"
  shows "\<exists>c. compare_npm_specs L b u = Inr c"
proof (cases "NpmSpec L (normalize_npm_version b)")
  case None
  then show ?thesis by (simp add: compare_npm_specs_def)
next
  case (Some sb)
  note sb = this
  show ?thesis
  proof (cases "NpmSpec L (normalize_npm_version u)")
    case None
    then show ?thesis by (simp add: compare_npm_specs_update_fails)
  next
    case (Some su)
    from assms sb obtain ab where ab: "extract_version_from_spec L sb b = Inr ab"
      using extract_version_from_spec_total by blast
    from assms Some obtain au where au: "extract_version_from_spec L su u = Inr au"
      using extract_version_from_spec_total by blast
    show ?thesis
      by (simp add: compare_npm_specs_def sb Some ab au split: option.splits)
  qed
qed

lemma merge_dependency_versions_strings_total:
  assumes "\<forall>s c. NpmSpec L s = Some c \<longrightarrow> find_first_range c \<noteq> None"
  shows "merge_dependency_versions L (JStr b) (JStr u) = Inr (JStr b) \<or>
         merge_dependency_versions L (JStr b) (JStr u) = Inr (JStr u)"
proof -
  from compare_npm_specs_total [OF assms] obtain c where "compare_npm_specs L b u = Inr c"
    by blast
  then show ?thesis
    using tie_break_cases [of L b u] by (auto simp: merge_dependency_versions_strings)
qed

lemma merge_dependency_versions_strings_result:
  "merge_dependency_versions L (JStr b) (JStr u) = Inr r \<Longrightarrow> r = JStr b \<or> r = JStr u"
  using tie_break_cases [of L b u]
  by (auto simp: merge_dependency_versions_strings split: if_splits sum.splits)

lemma merge_dependency_versions_not_wild:
  "is_wild (JStr b) = is_wild (JStr u) \<Longrightarrow>
   merge_dependency_versions L (JStr b) (JStr u) =
     (if has_protocol b \<or> has_protocol u then Inr (JStr u)
      else case compare_npm_specs L b u of
             Inl e \<Rightarrow> Inl e
           | Inr c \<Rightarrow> Inr (JStr (if c > 0 then u else if c < 0 then b else tie_break L b u)))"
  by (simp add: merge_dependency_versions_strings)

text \<open>
  C6, as amended. \<^verbatim>\<open>merge_dependency_versions\<close> on two strings applies its rules in
  order: when exactly one side is \<open>*\<close> or \<open>latest\<close> the other side is returned;
  otherwise, when either side holds a protocol marker, the update is returned;
  otherwise the side the comparator prefers, or on a tie the side the tie-break
  selects. A returned value is one of the two input strings, unchanged, and the merger
  returns whenever every range spec of the library holds a range.
\<close>

theorem merge_dependency_versions_rules:
  "((b = ''*'' \<or> b = ''latest'') \<and> \<not> (u = ''*'' \<or> u = ''latest'') \<longrightarrow>
      merge_dependency_versions L (JStr b) (JStr u) = Inr (JStr u)) \<and>
   ((u = ''*'' \<or> u = ''latest'') \<and> \<not> (b = ''*'' \<or> b = ''latest'') \<longrightarrow>
      merge_dependency_versions L (JStr b) (JStr u) = Inr (JStr b)) \<and>
   (((b = ''*'' \<or> b = ''latest'') = (u = ''*'' \<or> u = ''latest'')) \<and>
    (has_protocol b \<or> has_protocol u) \<longrightarrow>
      merge_dependency_versions L (JStr b) (JStr u) = Inr (JStr u)) \<and>
   (((b = ''*'' \<or> b = ''latest'') = (u = ''*'' \<or> u = ''latest'')) \<and>
    \<not> has_protocol b \<and> \<not> has_protocol u \<and> compare_npm_specs L b u = Inr c \<longrightarrow>
      merge_dependency_versions L (JStr b) (JStr u) =
        Inr (JStr (if c > 0 then u else if c < 0 then b else tie_break L b u))) \<and>
   (merge_dependency_versions L (JStr b) (JStr u) = Inr r \<longrightarrow> r = JStr b \<or> r = JStr u) \<and>
   ((\<forall>s c. NpmSpec L s = Some c \<longrightarrow> find_first_range c \<noteq> None) \<longrightarrow>
      merge_dependency_versions L (JStr b) (JStr u) = Inr (JStr b) \<or>
      merge_dependency_versions L (JStr b) (JStr u) = Inr (JStr u))"
proof (intro conjI impI)
  assume "(b = ''*'' \<or> b = ''latest'') \<and> \<not> (u = ''*'' \<or> u = ''latest'')"
  then have "is_wild (JStr b) \<and> \<not> is_wild (JStr u)" by (simp add: is_wild_JStr)
  then show "merge_dependency_versions L (JStr b) (JStr u) = Inr (JStr u)"
    by (simp add: merge_dependency_versions_strings)
next
  assume "(u = ''*'' \<or> u = ''latest'') \<and> \<not> (b = ''*'' \<or> b = ''latest'')"
  then have "is_wild (JStr u) \<and> \<not> is_wild (JStr b)" by (simp add: is_wild_JStr)
  then show "merge_dependency_versions L (JStr b) (JStr u) = Inr (JStr b)"
    by (simp add: merge_dependency_versions_strings)
next
  assume "((b = ''*'' \<or> b = ''latest'') = (u = ''*'' \<or> u = ''latest'')) \<and>
    (has_protocol b \<or> has_protocol u)"
  then have "is_wild (JStr b) = is_wild (JStr u) \<and> (has_protocol b \<or> has_protocol u)"
    by (simp add: is_wild_JStr)
  then show "merge_dependency_versions L (JStr b) (JStr u) = Inr (JStr u)"
    by (simp add: merge_dependency_versions_not_wild)
next
  assume "((b = ''*'' \<or> b = ''latest'') = (u = ''*'' \<or> u = ''latest'')) \<and>
    \<not> has_protocol b \<and> \<not> has_protocol u \<and> compare_npm_specs L b u = Inr c"
  then have "is_wild (JStr b) = is_wild (JStr u) \<and>
    \<not> has_protocol b \<and> \<not> has_protocol u \<and> compare_npm_specs L b u = Inr c"
    by (simp add: is_wild_JStr)
  then show "merge_dependency_versions L (JStr b) (JStr u) =
        Inr (JStr (if c > 0 then u else if c < 0 then b else tie_break L b u))"
    by (simp add: merge_dependency_versions_not_wild)
next
  assume "merge_dependency_versions L (JStr b) (JStr u) = Inr r"
  then show "r = JStr b \<or> r = JStr u" by (rule merge_dependency_versions_strings_result)
next
  assume "\<forall>s c. NpmSpec L s = Some c \<longrightarrow> find_first_range c \<noteq> None"
  then show "merge_dependency_versions L (JStr b) (JStr u) = Inr (JStr b) \<or>
      merge_dependency_versions L (JStr b) (JStr u) = Inr (JStr u)"
    by (rule merge_dependency_versions_strings_total)
qed

lemma semver_excerpt_has_ranges:
  "\<forall>s c. NpmSpec semver_excerpt s = Some c \<longrightarrow> find_first_range c \<noteq> None"
  by (auto simp: semver_excerpt_def split: if_splits)

theorem merge_dependency_versions_rules_witness:
  "merge_dependency_versions semver_excerpt (JStr ''*'') (JStr ''2.0.0'') = Inr (JStr ''2.0.0'') \<and>
   merge_dependency_versions semver_excerpt (JStr ''2.0.0'') (JStr ''latest'') = Inr (JStr ''2.0.0'') \<and>
   has_protocol ''file:../local'' \<and>
   merge_dependency_versions semver_excerpt (JStr ''file:../local'') (JStr ''2.0.0'') = Inr (JStr ''2.0.0'') \<and>
   has_protocol ''git+https://x'' \<and>
   merge_dependency_versions semver_excerpt (JStr ''2.0.0'') (JStr ''git+https://x'') = Inr (JStr ''git+https://x'') \<and>
   compare_npm_specs semver_excerpt ''1.0.0'' ''2.0.0'' = Inr 1 \<and>
   merge_dependency_versions semver_excerpt (JStr ''1.0.0'') (JStr ''2.0.0'') = Inr (JStr ''2.0.0'')"
proof -
  have p1: "has_protocol ''file:../local''" by code_simp
  have p2: "has_protocol ''git+https://x''" by code_simp
  have p3: "\<not> has_protocol ''1.0.0''" "\<not> has_protocol ''2.0.0''" by code_simp+
  have c: "compare_npm_specs semver_excerpt ''1.0.0'' ''2.0.0'' = Inr 1" by code_simp
  note r1 = merge_dependency_versions_rules [of "''*''" "''2.0.0''" semver_excerpt 0 JNull]
  note r2 = merge_dependency_versions_rules [of "''2.0.0''" "''latest''" semver_excerpt 0 JNull]
  note r3 = merge_dependency_versions_rules [of "''file:../local''" "''2.0.0''" semver_excerpt 0 JNull]
  note r4 = merge_dependency_versions_rules [of "''2.0.0''" "''git+https://x''" semver_excerpt 0 JNull]
  note r5 = merge_dependency_versions_rules [of "''1.0.0''" "''2.0.0''" semver_excerpt 1 JNull]
  from r1 have a1: "merge_dependency_versions semver_excerpt (JStr ''*'') (JStr ''2.0.0'') = Inr (JStr ''2.0.0'')"
    by simp
  from r2 have a2: "merge_dependency_versions semver_excerpt (JStr ''2.0.0'') (JStr ''latest'') = Inr (JStr ''2.0.0'')"
    by simp
  from r3 p1 have a3: "merge_dependency_versions semver_excerpt (JStr ''file:../local'') (JStr ''2.0.0'') = Inr (JStr ''2.0.0'')"
    by simp
  from r4 p2 have a4: "merge_dependency_versions semver_excerpt (JStr ''2.0.0'') (JStr ''git+https://x'') = Inr (JStr ''git+https://x'')"
    by simp
  from r5 p3 c have a5: "merge_dependency_versions semver_excerpt (JStr ''1.0.0'') (JStr ''2.0.0'') = Inr (JStr ''2.0.0'')"
    by simp
  from a1 a2 a3 a4 a5 p1 p2 c show ?thesis by simp
qed

text \<open>
  The claim C6 as stated fails where the base holds a protocol marker and the update
  is a wildcard: the wildcard test runs first and returns the base, not the update.
\<close>

theorem protocol_base_wildcard_update_counterexample:
  "has_protocol ''file:../local'' \<and>
   merge_dependency_versions semver_excerpt (JStr ''file:../local'') (JStr ''*'') =
     Inr (JStr ''file:../local'') \<and>
   merge_dependency_versions semver_excerpt (JStr ''git+https://x'') (JStr ''latest'') =
     Inr (JStr ''git+https://x'')"
  by code_simp

lemma PREFIX_PRIORITY_values:
  "PREFIX_PRIORITY ''^'' = 4" "PREFIX_PRIORITY ''~'' = 3" "PREFIX_PRIORITY ''>='' = 2"
  "PREFIX_PRIORITY ''>'' = 1" "PREFIX_PRIORITY ''='' = 0" "PREFIX_PRIORITY ''<='' = 0"
  "PREFIX_PRIORITY ''<'' = 0" "PREFIX_PRIORITY ''=='' = 0"
  by (simp_all add: PREFIX_PRIORITY_def)

lemma tie_break_constructed:
  "NpmSpec L (normalize_npm_version b) = Some sb \<Longrightarrow>
   NpmSpec L (normalize_npm_version u) = Some su \<Longrightarrow>
   tie_break L b u =
     (if PREFIX_PRIORITY (if get_version_prefix u \<in> {''^'', ''~''} then get_version_prefix u
                          else get_operator_from_range su)
         > PREFIX_PRIORITY (if get_version_prefix b \<in> {''^'', ''~''} then get_version_prefix b
                            else get_operator_from_range sb)
      then u else b)"
  by (simp add: tie_break_def Let_def)

lemma starts_with_caret_tilde:
  "starts_with ''^'' s \<Longrightarrow> \<not> starts_with ''~'' s"
  by (cases s) (auto simp: starts_with_def)

lemma get_version_prefix_caret_tilde:
  "(if get_version_prefix s \<in> {''^'', ''~''} then get_version_prefix s else operator) =
   (if starts_with ''^'' s then ''^'' else if starts_with ''~'' s then ''~'' else operator)"
  by (simp add: get_version_prefix_def)

lemma tie_break_by_literal_prefix:
  assumes "NpmSpec L (normalize_npm_version b) = Some sb"
    and "NpmSpec L (normalize_npm_version u) = Some su"
  shows "tie_break L b u =
     (if PREFIX_PRIORITY
           (if starts_with ''^'' u then ''^'' else if starts_with ''~'' u then ''~''
            else (case find_first_range su of Some (operator, target) \<Rightarrow> operator | None \<Rightarrow> ''='')) >
         PREFIX_PRIORITY
           (if starts_with ''^'' b then ''^'' else if starts_with ''~'' b then ''~''
            else (case find_first_range sb of Some (operator, target) \<Rightarrow> operator | None \<Rightarrow> ''=''))
      then u else b)"
  unfolding tie_break_constructed [OF assms] get_version_prefix_caret_tilde
    get_operator_from_range_eq ..

text \<open>
  C4. When no special case applies and the comparator returns 0 with both specs
  constructed, the merger returns the update exactly when the priority of the update's
  operator is strictly greater than that of the base's, and the base otherwise. The
  operator of a side is the caret or the tilde when the string begins with one, and
  else the operator of the first range of its spec (\<open>=\<close> when there is none). So a
  caret update displaces a tilde base, a tilde update does not displace a caret base,
  and on equal tiers the base is kept. The priorities are 4 for the caret, 3 for the
  tilde, 2 for \<open>>=\<close>, 1 for \<open>>\<close> and 0 for \<open>=\<close>, \<open><=\<close>, \<open><\<close> and the library's \<open>==\<close>. When
  \<^verbatim>\<open>NpmSpec\<close> rejects either side, the comparator returns 0 and the merger returns the
  update.
\<close>

theorem tie_break_by_operator_priority:
  assumes "(b = ''*'' \<or> b = ''latest'') = (u = ''*'' \<or> u = ''latest'')"
    and "\<not> has_protocol b" and "\<not> has_protocol u"
  shows
    "(compare_npm_specs L b u = Inr 0 \<and>
      NpmSpec L (normalize_npm_version b) = Some sb \<and>
      NpmSpec L (normalize_npm_version u) = Some su \<longrightarrow>
        merge_dependency_versions L (JStr b) (JStr u) =
          Inr (JStr
            (if PREFIX_PRIORITY
                  (if starts_with ''^'' u then ''^'' else if starts_with ''~'' u then ''~''
                   else (case find_first_range su of
                           Some (operator, target) \<Rightarrow> operator
                         | None \<Rightarrow> ''='')) >
                PREFIX_PRIORITY
                  (if starts_with ''^'' b then ''^'' else if starts_with ''~'' b then ''~''
                   else (case find_first_range sb of
                           Some (operator, target) \<Rightarrow> operator
                         | None \<Rightarrow> ''=''))
             then u else b)) \<and>
        (starts_with ''^'' u \<and> starts_with ''~'' b \<longrightarrow>
           merge_dependency_versions L (JStr b) (JStr u) = Inr (JStr u)) \<and>
        (starts_with ''~'' u \<and> starts_with ''^'' b \<longrightarrow>
           merge_dependency_versions L (JStr b) (JStr u) = Inr (JStr b)) \<and>
        (starts_with ''^'' u \<and> starts_with ''^'' b \<longrightarrow>
           merge_dependency_versions L (JStr b) (JStr u) = Inr (JStr b)) \<and>
        (starts_with ''~'' u \<and> starts_with ''~'' b \<longrightarrow>
           merge_dependency_versions L (JStr b) (JStr u) = Inr (JStr b))) \<and>
     (NpmSpec L (normalize_npm_version b) = None \<or>
      NpmSpec L (normalize_npm_version u) = None \<longrightarrow>
        compare_npm_specs L b u = Inr 0 \<and>
        merge_dependency_versions L (JStr b) (JStr u) = Inr (JStr u)) \<and>
     PREFIX_PRIORITY ''^'' = 4 \<and> PREFIX_PRIORITY ''~'' = 3 \<and> PREFIX_PRIORITY ''>='' = 2 \<and>
     PREFIX_PRIORITY ''>'' = 1 \<and> PREFIX_PRIORITY ''='' = 0 \<and> PREFIX_PRIORITY ''<='' = 0 \<and>
     PREFIX_PRIORITY ''<'' = 0 \<and> PREFIX_PRIORITY ''=='' = 0"
proof -
  from assms(1) have w: "is_wild (JStr b) = is_wild (JStr u)" by (simp add: is_wild_JStr)
  have m: "merge_dependency_versions L (JStr b) (JStr u) =
      (case compare_npm_specs L b u of
         Inl e \<Rightarrow> Inl e
       | Inr c \<Rightarrow> Inr (JStr (if c > 0 then u else if c < 0 then b else tie_break L b u)))"
    using assms(2,3) by (simp add: merge_dependency_versions_not_wild [OF w])
  have tie: "merge_dependency_versions L (JStr b) (JStr u) = Inr (JStr (tie_break L b u))"
    if "compare_npm_specs L b u = Inr 0"
    using m that by simp
  have first: "compare_npm_specs L b u = Inr 0 \<and>
      NpmSpec L (normalize_npm_version b) = Some sb \<and>
      NpmSpec L (normalize_npm_version u) = Some su \<longrightarrow>
        merge_dependency_versions L (JStr b) (JStr u) =
          Inr (JStr
            (if PREFIX_PRIORITY
                  (if starts_with ''^'' u then ''^'' else if starts_with ''~'' u then ''~''
                   else (case find_first_range su of
                           Some (operator, target) \<Rightarrow> operator
                         | None \<Rightarrow> ''='')) >
                PREFIX_PRIORITY
                  (if starts_with ''^'' b then ''^'' else if starts_with ''~'' b then ''~''
                   else (case find_first_range sb of
                           Some (operator, target) \<Rightarrow> operator
                         | None \<Rightarrow> ''=''))
             then u else b)) \<and>
        (starts_with ''^'' u \<and> starts_with ''~'' b \<longrightarrow>
           merge_dependency_versions L (JStr b) (JStr u) = Inr (JStr u)) \<and>
        (starts_with ''~'' u \<and> starts_with ''^'' b \<longrightarrow>
           merge_dependency_versions L (JStr b) (JStr u) = Inr (JStr b)) \<and>
        (starts_with ''^'' u \<and> starts_with ''^'' b \<longrightarrow>
           merge_dependency_versions L (JStr b) (JStr u) = Inr (JStr b)) \<and>
        (starts_with ''~'' u \<and> starts_with ''~'' b \<longrightarrow>
           merge_dependency_versions L (JStr b) (JStr u) = Inr (JStr b))"
  proof
    assume a: "compare_npm_specs L b u = Inr 0 \<and>
      NpmSpec L (normalize_npm_version b) = Some sb \<and>
      NpmSpec L (normalize_npm_version u) = Some su"
    then have t: "merge_dependency_versions L (JStr b) (JStr u) = Inr (JStr (tie_break L b u))"
      by (simp add: tie)
    from a have p: "tie_break L b u =
       (if PREFIX_PRIORITY
             (if starts_with ''^'' u then ''^'' else if starts_with ''~'' u then ''~''
              else (case find_first_range su of Some (operator, target) \<Rightarrow> operator | None \<Rightarrow> ''='')) >
           PREFIX_PRIORITY
             (if starts_with ''^'' b then ''^'' else if starts_with ''~'' b then ''~''
              else (case find_first_range sb of Some (operator, target) \<Rightarrow> operator | None \<Rightarrow> ''=''))
        then u else b)"
      by (simp add: tie_break_by_literal_prefix)
    show "merge_dependency_versions L (JStr b) (JStr u) =
          Inr (JStr
            (if PREFIX_PRIORITY
                  (if starts_with ''^'' u then ''^'' else if starts_with ''~'' u then ''~''
                   else (case find_first_range su of
                           Some (operator, target) \<Rightarrow> operator
                         | None \<Rightarrow> ''='')) >
                PREFIX_PRIORITY
                  (if starts_with ''^'' b then ''^'' else if starts_with ''~'' b then ''~''
                   else (case find_first_range sb of
                           Some (operator, target) \<Rightarrow> operator
                         | None \<Rightarrow> ''=''))
             then u else b)) \<and>
        (starts_with ''^'' u \<and> starts_with ''~'' b \<longrightarrow>
           merge_dependency_versions L (JStr b) (JStr u) = Inr (JStr u)) \<and>
        (starts_with ''~'' u \<and> starts_with ''^'' b \<longrightarrow>
           merge_dependency_versions L (JStr b) (JStr u) = Inr (JStr b)) \<and>
        (starts_with ''^'' u \<and> starts_with ''^'' b \<longrightarrow>
           merge_dependency_versions L (JStr b) (JStr u) = Inr (JStr b)) \<and>
        (starts_with ''~'' u \<and> starts_with ''~'' b \<longrightarrow>
           merge_dependency_versions L (JStr b) (JStr u) = Inr (JStr b))"
      unfolding t p
      using starts_with_caret_tilde [of u] starts_with_caret_tilde [of b]
      by (auto simp: PREFIX_PRIORITY_values)
  qed
  have second: "NpmSpec L (normalize_npm_version b) = None \<or>
      NpmSpec L (normalize_npm_version u) = None \<longrightarrow>
        compare_npm_specs L b u = Inr 0 \<and>
        merge_dependency_versions L (JStr b) (JStr u) = Inr (JStr u)"
  proof
    assume f: "NpmSpec L (normalize_npm_version b) = None \<or>
      NpmSpec L (normalize_npm_version u) = None"
    then have c: "compare_npm_specs L b u = Inr 0"
      using compare_npm_specs_base_fails compare_npm_specs_update_fails by blast
    from f have "tie_break L b u = u"
      using tie_break_base_fails tie_break_update_fails by blast
    with c tie show "compare_npm_specs L b u = Inr 0 \<and>
        merge_dependency_versions L (JStr b) (JStr u) = Inr (JStr u)"
      by simp
  qed
  from first second show ?thesis
    by (simp only: PREFIX_PRIORITY_values simp_thms)
qed

theorem tie_break_by_operator_priority_witness:
  "compare_npm_specs semver_excerpt ''~0.1.0'' ''^0.1.0'' = Inr 0 \<and>
   merge_dependency_versions semver_excerpt (JStr ''~0.1.0'') (JStr ''^0.1.0'') = Inr (JStr ''^0.1.0'') \<and>
   compare_npm_specs semver_excerpt ''^0.1.0'' ''~0.1.0'' = Inr 0 \<and>
   merge_dependency_versions semver_excerpt (JStr ''^0.1.0'') (JStr ''~0.1.0'') = Inr (JStr ''^0.1.0'') \<and>
   compare_npm_specs semver_excerpt ''>=1.0.0'' ''~0.1.0'' = Inr (- 1) \<and>
   compare_npm_specs semver_excerpt ''1.0.0'' ''>=1.0.0'' = Inr 0 \<and>
   merge_dependency_versions semver_excerpt (JStr ''1.0.0'') (JStr ''>=1.0.0'') = Inr (JStr ''>=1.0.0'') \<and>
   compare_npm_specs semver_excerpt ''>=1.0.0'' ''>1.0.0'' = Inr 0 \<and>
   merge_dependency_versions semver_excerpt (JStr ''>=1.0.0'') (JStr ''>1.0.0'') = Inr (JStr ''>=1.0.0'') \<and>
   compare_npm_specs semver_excerpt ''1.0.0'' ''<=1.0.0'' = Inr 0 \<and>
   merge_dependency_versions semver_excerpt (JStr ''1.0.0'') (JStr ''<=1.0.0'') = Inr (JStr ''1.0.0'') \<and>
   NpmSpec semver_excerpt (normalize_npm_version ''next'') = None \<and>
   merge_dependency_versions semver_excerpt (JStr ''>=1.0.0'') (JStr ''next'') = Inr (JStr ''next'')"
proof -
  have p: "\<not> has_protocol ''1.0.0''" "\<not> has_protocol ''>=1.0.0''" "\<not> has_protocol ''>1.0.0''"
    "\<not> has_protocol ''<=1.0.0''" "\<not> has_protocol ''^0.1.0''" "\<not> has_protocol ''~0.1.0''"
    "\<not> has_protocol ''next''"
    by code_simp+
  have s1: "NpmSpec semver_excerpt (normalize_npm_version ''1.0.0'') = Some (AllOf [Range ''=='' (1, 0, 0)])"
    by code_simp
  have s2: "NpmSpec semver_excerpt (normalize_npm_version ''>=1.0.0'') = Some (AllOf [Range ''>='' (1, 0, 0)])"
    by code_simp
  have s3: "NpmSpec semver_excerpt (normalize_npm_version ''>1.0.0'') = Some (AllOf [Range ''>'' (1, 0, 0)])"
    by code_simp
  have s4: "NpmSpec semver_excerpt (normalize_npm_version ''next'') = None"
    by code_simp
  have s5: "NpmSpec semver_excerpt (normalize_npm_version ''<=1.0.0'') = Some (AllOf [Range ''<='' (1, 0, 0)])"
    by code_simp
  have s6: "NpmSpec semver_excerpt (normalize_npm_version ''^0.1.0'') =
      Some (AllOf [Range ''>='' (0, 1, 0), Range ''<'' (0, 2, 0)])"
    by code_simp
  have s7: "NpmSpec semver_excerpt (normalize_npm_version ''~0.1.0'') =
      Some (AllOf [Range ''>='' (0, 1, 0), Range ''<'' (0, 2, 0)])"
    by code_simp
  have c1: "compare_npm_specs semver_excerpt ''1.0.0'' ''>=1.0.0'' = Inr 0" by code_simp
  have c2: "compare_npm_specs semver_excerpt ''>=1.0.0'' ''>1.0.0'' = Inr 0" by code_simp
  have c3: "compare_npm_specs semver_excerpt ''1.0.0'' ''<=1.0.0'' = Inr 0" by code_simp
  have c4: "compare_npm_specs semver_excerpt ''~0.1.0'' ''^0.1.0'' = Inr 0" by code_simp
  have c5: "compare_npm_specs semver_excerpt ''^0.1.0'' ''~0.1.0'' = Inr 0" by code_simp
  have c6: "compare_npm_specs semver_excerpt ''>=1.0.0'' ''~0.1.0'' = Inr (- 1)" by code_simp
  have w: "starts_with ''^'' ''^0.1.0''" "starts_with ''~'' ''~0.1.0''"
    "\<not> starts_with ''^'' ''1.0.0''" "\<not> starts_with ''~'' ''1.0.0''"
    "\<not> starts_with ''^'' ''>=1.0.0''" "\<not> starts_with ''~'' ''>=1.0.0''"
    "\<not> starts_with ''^'' ''>1.0.0''" "\<not> starts_with ''~'' ''>1.0.0''"
    "\<not> starts_with ''^'' ''<=1.0.0''" "\<not> starts_with ''~'' ''<=1.0.0''"
    "\<not> starts_with ''^'' ''~0.1.0''" "\<not> starts_with ''~'' ''^0.1.0''"
    by (simp_all add: starts_with_def)
  have a0: "merge_dependency_versions semver_excerpt (JStr ''~0.1.0'') (JStr ''^0.1.0'') = Inr (JStr ''^0.1.0'')"
    using tie_break_by_operator_priority [of "''~0.1.0''" "''^0.1.0''" semver_excerpt
        "AllOf [Range ''>='' (0, 1, 0), Range ''<'' (0, 2, 0)]"
        "AllOf [Range ''>='' (0, 1, 0), Range ''<'' (0, 2, 0)]"] p s6 s7 c4 w
    by simp
  have a00: "merge_dependency_versions semver_excerpt (JStr ''^0.1.0'') (JStr ''~0.1.0'') = Inr (JStr ''^0.1.0'')"
    using tie_break_by_operator_priority [of "''^0.1.0''" "''~0.1.0''" semver_excerpt
        "AllOf [Range ''>='' (0, 1, 0), Range ''<'' (0, 2, 0)]"
        "AllOf [Range ''>='' (0, 1, 0), Range ''<'' (0, 2, 0)]"] p s6 s7 c5 w
    by simp
  have a1: "merge_dependency_versions semver_excerpt (JStr ''1.0.0'') (JStr ''>=1.0.0'') = Inr (JStr ''>=1.0.0'')"
    using tie_break_by_operator_priority [of "''1.0.0''" "''>=1.0.0''" semver_excerpt
        "AllOf [Range ''=='' (1, 0, 0)]" "AllOf [Range ''>='' (1, 0, 0)]"] p s1 s2 c1 w
    by (simp add: PREFIX_PRIORITY_values)
  have a2: "merge_dependency_versions semver_excerpt (JStr ''>=1.0.0'') (JStr ''>1.0.0'') = Inr (JStr ''>=1.0.0'')"
    using tie_break_by_operator_priority [of "''>=1.0.0''" "''>1.0.0''" semver_excerpt
        "AllOf [Range ''>='' (1, 0, 0)]" "AllOf [Range ''>'' (1, 0, 0)]"] p s2 s3 c2 w
    by (simp add: PREFIX_PRIORITY_values)
  have a3: "merge_dependency_versions semver_excerpt (JStr ''1.0.0'') (JStr ''<=1.0.0'') = Inr (JStr ''1.0.0'')"
    using tie_break_by_operator_priority [of "''1.0.0''" "''<=1.0.0''" semver_excerpt
        "AllOf [Range ''=='' (1, 0, 0)]" "AllOf [Range ''<='' (1, 0, 0)]"] p s1 s5 c3 w
    by (simp add: PREFIX_PRIORITY_values)
  have a4: "merge_dependency_versions semver_excerpt (JStr ''>=1.0.0'') (JStr ''next'') = Inr (JStr ''next'')"
    using tie_break_by_operator_priority [of "''>=1.0.0''" "''next''" semver_excerpt] p s4
    by simp
  from a0 a00 a1 a2 a3 a4 c1 c2 c3 c4 c5 c6 s4 show ?thesis by simp
qed

text \<open>
  C3, as amended. When \<^verbatim>\<open>NpmSpec\<close> rejects either string the comparator returns 0,
  whatever the anchors. When both specs are constructed and
  \<^verbatim>\<open>_extract_version_from_spec\<close> returns the anchors, the comparator decides by them:
  0 when both are absent, +1 when only the base's is absent, -1 when only the update's
  is absent, and for two anchors +1 when the update's is greater, -1 when the base's is
  greater, 0 when neither is greater, equal anchors included.
\<close>

theorem compare_npm_specs_by_anchors:
  "(NpmSpec L (normalize_npm_version b) = None \<or>
    NpmSpec L (normalize_npm_version u) = None \<longrightarrow>
      compare_npm_specs L b u = Inr 0) \<and>
   (NpmSpec L (normalize_npm_version b) = Some sb \<and>
    NpmSpec L (normalize_npm_version u) = Some su \<and>
    extract_version_from_spec L sb b = Inr ab \<and>
    extract_version_from_spec L su u = Inr au \<longrightarrow>
      (ab = None \<and> au = None \<longrightarrow> compare_npm_specs L b u = Inr 0) \<and>
      (ab = None \<and> au \<noteq> None \<longrightarrow> compare_npm_specs L b u = Inr 1) \<and>
      (ab \<noteq> None \<and> au = None \<longrightarrow> compare_npm_specs L b u = Inr (- 1)) \<and>
      (\<forall>x y. ab = Some x \<and> au = Some y \<longrightarrow>
         (version_gt L y x \<longrightarrow> compare_npm_specs L b u = Inr 1) \<and>
         (version_gt L x y \<and> \<not> version_gt L y x \<longrightarrow> compare_npm_specs L b u = Inr (- 1)) \<and>
         (\<not> version_gt L x y \<and> \<not> version_gt L y x \<longrightarrow> compare_npm_specs L b u = Inr 0) \<and>
         (x = y \<and> \<not> version_gt L x x \<longrightarrow> compare_npm_specs L b u = Inr 0)))"
proof (intro conjI impI)
  assume "NpmSpec L (normalize_npm_version b) = None \<or>
    NpmSpec L (normalize_npm_version u) = None"
  then show "compare_npm_specs L b u = Inr 0"
    using compare_npm_specs_base_fails compare_npm_specs_update_fails by blast
next
  assume a: "NpmSpec L (normalize_npm_version b) = Some sb \<and>
    NpmSpec L (normalize_npm_version u) = Some su \<and>
    extract_version_from_spec L sb b = Inr ab \<and>
    extract_version_from_spec L su u = Inr au"
  { assume "ab = None \<and> au = None"
    with a show "compare_npm_specs L b u = Inr 0" by (simp add: compare_npm_specs_def) }
  { assume "ab = None \<and> au \<noteq> None"
    with a show "compare_npm_specs L b u = Inr 1" by (auto simp: compare_npm_specs_def) }
  { assume "ab \<noteq> None \<and> au = None"
    with a show "compare_npm_specs L b u = Inr (- 1)" by (auto simp: compare_npm_specs_def) }
  show "\<forall>x y. ab = Some x \<and> au = Some y \<longrightarrow>
         (version_gt L y x \<longrightarrow> compare_npm_specs L b u = Inr 1) \<and>
         (version_gt L x y \<and> \<not> version_gt L y x \<longrightarrow> compare_npm_specs L b u = Inr (- 1)) \<and>
         (\<not> version_gt L x y \<and> \<not> version_gt L y x \<longrightarrow> compare_npm_specs L b u = Inr 0) \<and>
         (x = y \<and> \<not> version_gt L x x \<longrightarrow> compare_npm_specs L b u = Inr 0)"
    using a by (auto simp: compare_npm_specs_def)
qed

theorem compare_npm_specs_by_anchors_witness:
  "NpmSpec semver_excerpt (normalize_npm_version ''next'') = None \<and>
   compare_npm_specs semver_excerpt ''next'' ''1.0.0'' = Inr 0 \<and>
   extract_version_from_spec semver_excerpt (AllOf [Range ''>='' (0, 0, 0)]) ''*'' = Inr None \<and>
   extract_version_from_spec semver_excerpt (AllOf [Range ''=='' (1, 0, 0)]) ''1.0.0'' = Inr (Some (1, 0, 0)) \<and>
   extract_version_from_spec semver_excerpt (AllOf [Range ''=='' (2, 0, 0)]) ''2.0.0'' = Inr (Some (2, 0, 0)) \<and>
   compare_npm_specs semver_excerpt ''*'' ''1.0.0'' = Inr 1 \<and>
   compare_npm_specs semver_excerpt ''1.0.0'' ''*'' = Inr (- 1) \<and>
   compare_npm_specs semver_excerpt ''*'' ''*'' = Inr 0 \<and>
   compare_npm_specs semver_excerpt ''1.0.0'' ''2.0.0'' = Inr 1 \<and>
   compare_npm_specs semver_excerpt ''2.0.0'' ''1.0.0'' = Inr (- 1) \<and>
   compare_npm_specs semver_excerpt ''1.0.0'' ''1.0.0'' = Inr 0"
proof -
  have s0: "NpmSpec semver_excerpt (normalize_npm_version ''next'') = None" by code_simp
  have sw: "NpmSpec semver_excerpt (normalize_npm_version ''*'') = Some (AllOf [Range ''>='' (0, 0, 0)])"
    by code_simp
  have s1: "NpmSpec semver_excerpt (normalize_npm_version ''1.0.0'') = Some (AllOf [Range ''=='' (1, 0, 0)])"
    by code_simp
  have s2: "NpmSpec semver_excerpt (normalize_npm_version ''2.0.0'') = Some (AllOf [Range ''=='' (2, 0, 0)])"
    by code_simp
  have ew: "extract_version_from_spec semver_excerpt (AllOf [Range ''>='' (0, 0, 0)]) ''*'' = Inr None"
    by code_simp
  have e1: "extract_version_from_spec semver_excerpt (AllOf [Range ''=='' (1, 0, 0)]) ''1.0.0'' = Inr (Some (1, 0, 0))"
    by code_simp
  have e2: "extract_version_from_spec semver_excerpt (AllOf [Range ''=='' (2, 0, 0)]) ''2.0.0'' = Inr (Some (2, 0, 0))"
    by code_simp
  have g: "version_gt semver_excerpt (2, 0, 0) (1, 0, 0)" "\<not> version_gt semver_excerpt (1, 0, 0) (2, 0, 0)"
    "\<not> version_gt semver_excerpt (1, 0, 0) (1, 0, 0)"
    by code_simp+
  have r0: "compare_npm_specs semver_excerpt ''next'' ''1.0.0'' = Inr 0"
    using compare_npm_specs_by_anchors [of semver_excerpt "''next''" "''1.0.0''"] s0 by simp
  have r1: "compare_npm_specs semver_excerpt ''*'' ''1.0.0'' = Inr 1"
    using compare_npm_specs_by_anchors [of semver_excerpt "''*''" "''1.0.0''" _ _ None "Some (1, 0, 0)"]
      sw s1 ew e1 by simp
  have r2: "compare_npm_specs semver_excerpt ''1.0.0'' ''*'' = Inr (- 1)"
    using compare_npm_specs_by_anchors [of semver_excerpt "''1.0.0''" "''*''" _ _ "Some (1, 0, 0)" None]
      sw s1 ew e1 by simp
  have r3: "compare_npm_specs semver_excerpt ''*'' ''*'' = Inr 0"
    using compare_npm_specs_by_anchors [of semver_excerpt "''*''" "''*''" _ _ None None]
      sw ew by simp
  have r4: "compare_npm_specs semver_excerpt ''1.0.0'' ''2.0.0'' = Inr 1"
    using compare_npm_specs_by_anchors [of semver_excerpt "''1.0.0''" "''2.0.0''" _ _ "Some (1, 0, 0)" "Some (2, 0, 0)"]
      s1 s2 e1 e2 g by simp
  have r5: "compare_npm_specs semver_excerpt ''2.0.0'' ''1.0.0'' = Inr (- 1)"
    using compare_npm_specs_by_anchors [of semver_excerpt "''2.0.0''" "''1.0.0''" _ _ "Some (2, 0, 0)" "Some (1, 0, 0)"]
      s1 s2 e1 e2 g by simp
  have r6: "compare_npm_specs semver_excerpt ''1.0.0'' ''1.0.0'' = Inr 0"
    using compare_npm_specs_by_anchors [of semver_excerpt "''1.0.0''" "''1.0.0''" _ _ "Some (1, 0, 0)" "Some (1, 0, 0)"]
      s1 e1 g by simp
  from s0 ew e1 e2 r0 r1 r2 r3 r4 r5 r6 show ?thesis by simp
qed

text \<open>
  The claim C3 as stated fails for the base \<open>next\<close> and the update \<open>1.0.0\<close>: the base has
  no anchor and the update has one, so the claim asks for +1, but \<^verbatim>\<open>NpmSpec("next")\<close>
  raises ValueError and the comparator returns 0.
\<close>

theorem compare_npm_specs_next_counterexample:
  "spec_anchor semver_excerpt ''next'' = None \<and>
   spec_anchor semver_excerpt ''1.0.0'' = Some (1, 0, 0) \<and>
   compare_npm_specs semver_excerpt ''next'' ''1.0.0'' = Inr 0"
  by code_simp

section \<open>Properties of the dependency map merger\<close>

lemma map_of_dict_set: "map_of (dict_set d k v) = (map_of d)(k \<mapsto> v)"
  by (induction d k v rule: dict_set.induct) (auto simp: fun_eq_iff)

lemma keys_dict_set_present:
  "k \<in> set (map fst d) \<Longrightarrow> map fst (dict_set d k v) = map fst d"
  by (induction d k v rule: dict_set.induct) auto

lemma keys_dict_set_absent:
  "k \<notin> set (map fst d) \<Longrightarrow> map fst (dict_set d k v) = map fst d @ [k]"
  by (induction d k v rule: dict_set.induct) auto

lemma set_dict_set: "set (dict_set d k v) \<subseteq> insert (k, v) (set d)"
  by (induction d k v rule: dict_set.induct) auto

lemma values_dict_set:
  assumes "\<forall>w \<in> set (map snd d). P w" and "P v"
  shows "\<forall>w \<in> set (map snd (dict_set d k v)). P w"
  using assms set_dict_set [of d k v] by fastforce

lemma merge_dependencies_loop_correct:
  assumes "\<forall>s c. NpmSpec L s = Some c \<longrightarrow> find_first_range c \<noteq> None"
    and "distinct (map fst ups)"
    and "\<forall>v \<in> set (map snd result). \<exists>s. v = JStr s"
    and "\<forall>v \<in> set (map snd ups). \<exists>s. v = JStr s"
  shows "\<exists>r. merge_dependencies_loop L result ups = Inr r \<and>
           map fst r = map fst result @ filter (\<lambda>k. k \<notin> set (map fst result)) (map fst ups) \<and>
           (\<forall>k. map_of r k =
              (case map_of ups k of
                 None \<Rightarrow> map_of result k
               | Some v \<Rightarrow>
                  (case map_of result k of
                     None \<Rightarrow> Some v
                   | Some bv \<Rightarrow>
                      (case merge_dependency_versions L bv v of
                         Inr m \<Rightarrow> Some m
                       | Inl e \<Rightarrow> None))))"
  using assms(2-4)
proof (induction ups arbitrary: result)
  case Nil
  then show ?case by simp
next
  case (Cons pv rest)
  obtain p v where pv: "pv = (p, v)" by (cases pv)
  from Cons.prems pv have fresh: "p \<notin> set (map fst rest)" and dist: "distinct (map fst rest)"
    by auto
  from fresh have none_rest: "map_of rest p = None"
    by (simp add: map_of_eq_None_iff)
  from Cons.prems pv obtain us where us: "v = JStr us" by auto
  from Cons.prems pv have rest_str: "\<forall>v \<in> set (map snd rest). \<exists>s. v = JStr s" by auto
  show ?case
  proof (cases "map_of result p")
    case None
    let ?result' = "dict_set result p v"
    have keys': "map fst ?result' = map fst result @ [p]"
      using None by (simp add: keys_dict_set_absent map_of_eq_None_iff)
    have str': "\<forall>w \<in> set (map snd ?result'). \<exists>s. w = JStr s"
      using values_dict_set [of result "\<lambda>w. \<exists>s. w = JStr s" v p] Cons.prems(2) us by blast
    from Cons.IH [OF dist str' rest_str] obtain r where
      r: "merge_dependencies_loop L ?result' rest = Inr r"
      and rk: "map fst r = map fst ?result' @ filter (\<lambda>k. k \<notin> set (map fst ?result')) (map fst rest)"
      and rv: "\<forall>k. map_of r k =
              (case map_of rest k of
                 None \<Rightarrow> map_of ?result' k
               | Some v \<Rightarrow>
                  (case map_of ?result' k of
                     None \<Rightarrow> Some v
                   | Some bv \<Rightarrow>
                      (case merge_dependency_versions L bv v of
                         Inr m \<Rightarrow> Some m
                       | Inl e \<Rightarrow> None)))"
      by blast
    have f: "filter (\<lambda>k. k \<notin> set (map fst ?result')) (map fst rest) =
             filter (\<lambda>k. k \<notin> set (map fst result)) (map fst rest)"
      using fresh by (auto simp: keys' intro: filter_cong)
    have pnot: "p \<notin> set (map fst result)"
      using None by (simp add: map_of_eq_None_iff)
    have 1: "merge_dependencies_loop L result (pv # rest) = Inr r"
      using r None pv by simp
    have 2: "map fst r = map fst result @ filter (\<lambda>k. k \<notin> set (map fst result)) (map fst (pv # rest))"
      using rk f keys' pnot pv by simp
    have 3: "\<forall>k. map_of r k =
              (case map_of (pv # rest) k of
                 None \<Rightarrow> map_of result k
               | Some v \<Rightarrow>
                  (case map_of result k of
                     None \<Rightarrow> Some v
                   | Some bv \<Rightarrow>
                      (case merge_dependency_versions L bv v of
                         Inr m \<Rightarrow> Some m
                       | Inl e \<Rightarrow> None)))"
    proof
      fix k
      show "map_of r k =
              (case map_of (pv # rest) k of
                 None \<Rightarrow> map_of result k
               | Some v \<Rightarrow>
                  (case map_of result k of
                     None \<Rightarrow> Some v
                   | Some bv \<Rightarrow>
                      (case merge_dependency_versions L bv v of
                         Inr m \<Rightarrow> Some m
                       | Inl e \<Rightarrow> None)))"
        using rv [rule_format, of k] None none_rest pv
        by (cases "k = p") (simp_all add: map_of_dict_set split: option.splits)
    qed
    from 1 2 3 show ?thesis by blast
  next
    case (Some cur)
    then have "cur \<in> set (map snd result)"
      by (metis map_of_SomeD image_eqI set_map snd_conv)
    with Cons.prems(2) obtain bs where bs: "cur = JStr bs" by auto
    from merge_dependency_versions_strings_total [OF assms(1), of bs us]
    obtain m where m: "merge_dependency_versions L cur v = Inr m" and mstr: "m = JStr bs \<or> m = JStr us"
      using bs us by auto
    let ?result' = "dict_set result p m"
    have pin: "p \<in> set (map fst result)"
      using Some by (metis map_of_eq_None_iff option.distinct(1) set_map)
    have keys': "map fst ?result' = map fst result"
      using pin by (simp add: keys_dict_set_present)
    have str': "\<forall>w \<in> set (map snd ?result'). \<exists>s. w = JStr s"
      using values_dict_set [of result "\<lambda>w. \<exists>s. w = JStr s" m p] Cons.prems(2) mstr by blast
    from Cons.IH [OF dist str' rest_str] obtain r where
      r: "merge_dependencies_loop L ?result' rest = Inr r"
      and rk: "map fst r = map fst ?result' @ filter (\<lambda>k. k \<notin> set (map fst ?result')) (map fst rest)"
      and rv: "\<forall>k. map_of r k =
              (case map_of rest k of
                 None \<Rightarrow> map_of ?result' k
               | Some v \<Rightarrow>
                  (case map_of ?result' k of
                     None \<Rightarrow> Some v
                   | Some bv \<Rightarrow>
                      (case merge_dependency_versions L bv v of
                         Inr m \<Rightarrow> Some m
                       | Inl e \<Rightarrow> None)))"
      by blast
    have 1: "merge_dependencies_loop L result (pv # rest) = Inr r"
      using r Some m pv by simp
    have 2: "map fst r = map fst result @ filter (\<lambda>k. k \<notin> set (map fst result)) (map fst (pv # rest))"
      using rk keys' pin pv by simp
    have 3: "\<forall>k. map_of r k =
              (case map_of (pv # rest) k of
                 None \<Rightarrow> map_of result k
               | Some v \<Rightarrow>
                  (case map_of result k of
                     None \<Rightarrow> Some v
                   | Some bv \<Rightarrow>
                      (case merge_dependency_versions L bv v of
                         Inr m \<Rightarrow> Some m
                       | Inl e \<Rightarrow> None)))"
    proof
      fix k
      show "map_of r k =
              (case map_of (pv # rest) k of
                 None \<Rightarrow> map_of result k
               | Some v \<Rightarrow>
                  (case map_of result k of
                     None \<Rightarrow> Some v
                   | Some bv \<Rightarrow>
                      (case merge_dependency_versions L bv v of
                         Inr m \<Rightarrow> Some m
                       | Inl e \<Rightarrow> None)))"
        using rv [rule_format, of k] Some none_rest pv m
        by (cases "k = p") (simp_all add: map_of_dict_set split: option.splits)
    qed
    from 1 2 3 show ?thesis by blast
  qed
qed

text \<open>
  C7. For two dependency mappings (objects with unique keys and string values),
  \<^verbatim>\<open>merge_dependencies\<close> returns an object whose keys are the base keys in their
  order followed by the update-only keys in the update's order, so exactly the union of
  the keys; a key of both sides maps to \<^verbatim>\<open>merge_dependency_versions\<close> of the two
  values, a key of one side keeps that side's value.
\<close>

theorem merge_dependencies_union:
  assumes "\<forall>s c. NpmSpec L s = Some c \<longrightarrow> find_first_range c \<noteq> None"
    and "distinct (map fst base)" and "distinct (map fst updates)"
    and "\<forall>v \<in> set (map snd base). \<exists>s. v = JStr s"
    and "\<forall>v \<in> set (map snd updates). \<exists>s. v = JStr s"
  shows "\<exists>r. merge_dependencies L (JObj base) (JObj updates) = Inr (JObj r) \<and>
           map fst r = map fst base @ filter (\<lambda>k. k \<notin> set (map fst base)) (map fst updates) \<and>
           set (map fst r) = set (map fst base) \<union> set (map fst updates) \<and>
           distinct (map fst r) \<and>
           (\<forall>k bv uv. map_of base k = Some bv \<and> map_of updates k = Some uv \<longrightarrow>
              merge_dependency_versions L bv uv = Inr (the (map_of r k)) \<and> map_of r k \<noteq> None) \<and>
           (\<forall>k. map_of updates k = None \<longrightarrow> map_of r k = map_of base k) \<and>
           (\<forall>k. map_of base k = None \<longrightarrow> map_of r k = map_of updates k)"
proof -
  from merge_dependencies_loop_correct [OF assms(1) assms(3) assms(4) assms(5)]
  obtain r where r: "merge_dependencies_loop L base updates = Inr r"
    and rk: "map fst r = map fst base @ filter (\<lambda>k. k \<notin> set (map fst base)) (map fst updates)"
    and rv: "\<forall>k. map_of r k =
              (case map_of updates k of
                 None \<Rightarrow> map_of base k
               | Some v \<Rightarrow>
                  (case map_of base k of
                     None \<Rightarrow> Some v
                   | Some bv \<Rightarrow>
                      (case merge_dependency_versions L bv v of
                         Inr m \<Rightarrow> Some m
                       | Inl e \<Rightarrow> None)))"
    by blast
  have 1: "merge_dependencies L (JObj base) (JObj updates) = Inr (JObj r)"
    using r by simp
  have 2: "set (map fst r) = set (map fst base) \<union> set (map fst updates)"
    using rk by auto
  have 3: "distinct (map fst r)"
    using rk assms(2,3) by (auto simp: distinct_map_filter)
  have 4: "\<forall>k bv uv. map_of base k = Some bv \<and> map_of updates k = Some uv \<longrightarrow>
              merge_dependency_versions L bv uv = Inr (the (map_of r k)) \<and> map_of r k \<noteq> None"
  proof (intro allI impI)
    fix k bv uv
    assume a: "map_of base k = Some bv \<and> map_of updates k = Some uv"
    then have "bv \<in> set (map snd base)" "uv \<in> set (map snd updates)"
      by (metis map_of_SomeD image_eqI set_map snd_conv)+
    with assms(4,5) obtain bs us where s: "bv = JStr bs" "uv = JStr us" by blast
    from merge_dependency_versions_strings_total [OF assms(1), of bs us] s
    obtain m where m: "merge_dependency_versions L bv uv = Inr m" by auto
    with a rv [rule_format, of k]
    show "merge_dependency_versions L bv uv = Inr (the (map_of r k)) \<and> map_of r k \<noteq> None"
      by simp
  qed
  have 5: "\<forall>k. map_of updates k = None \<longrightarrow> map_of r k = map_of base k"
    using rv by simp
  have 6: "\<forall>k. map_of base k = None \<longrightarrow> map_of r k = map_of updates k"
    using rv by (auto split: option.splits)
  from 1 rk 2 3 4 5 6 show ?thesis by blast
qed

theorem merge_dependencies_union_witness:
  "merge_dependencies semver_excerpt
     (JObj [(''a'', JStr ''1.0.0''), (''b'', JStr ''1.0.0'')])
     (JObj [(''b'', JStr ''2.0.0''), (''c'', JStr ''1.0.0'')]) =
   Inr (JObj [(''a'', JStr ''1.0.0''), (''b'', JStr ''2.0.0''), (''c'', JStr ''1.0.0'')]) \<and>
   merge_dependency_versions semver_excerpt (JStr ''1.0.0'') (JStr ''2.0.0'') = Inr (JStr ''2.0.0'')"
proof -
  let ?b = "[(''a'', JStr ''1.0.0''), (''b'', JStr ''1.0.0'')]"
  let ?u = "[(''b'', JStr ''2.0.0''), (''c'', JStr ''1.0.0'')]"
  have d: "distinct (map fst ?b)" "distinct (map fst ?u)" by simp_all
  have s: "\<forall>v \<in> set (map snd ?b). \<exists>s. v = JStr s" "\<forall>v \<in> set (map snd ?u). \<exists>s. v = JStr s"
    by simp_all
  from merge_dependencies_union [OF semver_excerpt_has_ranges d s]
  obtain r where r: "merge_dependencies semver_excerpt (JObj ?b) (JObj ?u) = Inr (JObj r)"
    and k: "map fst r = map fst ?b @ filter (\<lambda>k. k \<notin> set (map fst ?b)) (map fst ?u)"
    by blast
  have e: "merge_dependencies semver_excerpt (JObj ?b) (JObj ?u) =
      Inr (JObj [(''a'', JStr ''1.0.0''), (''b'', JStr ''2.0.0''), (''c'', JStr ''1.0.0'')])"
    by code_simp
  have m: "merge_dependency_versions semver_excerpt (JStr ''1.0.0'') (JStr ''2.0.0'') = Inr (JStr ''2.0.0'')"
    by code_simp
  from r k e m show ?thesis by simp
qed

section \<open>Properties of the overrides branch\<close>




















section \<open>Properties of the regular list branch\<close>





















section \<open>Properties of the deep merger\<close>




















text \<open>
  C2 fails on the code. Under a dependency key \<^verbatim>\<open>_deep_merge_value\<close> calls
  \<^verbatim>\<open>merge_dependencies\<close> without testing that both values are objects: a string or a
  number under \<open>dependencies\<close> on the base side raises AttributeError where the claim
  has the update replace it, and a list against the empty object is kept where the claim
  has the empty object replace it.
\<close>

theorem dependency_key_without_object_guard:
  "deep_merge semver_excerpt
     [(''dependencies'', JStr ''x'')]
     [(''dependencies'', JObj [(''a'', JStr ''1.0.0'')])] ''replace'' = Inl AttributeError \<and>
   deep_merge semver_excerpt
     [(''dependencies'', JInt 1)] [(''dependencies'', JInt 2)] ''replace'' = Inl AttributeError \<and>
   deep_merge semver_excerpt
     [(''dependencies'', JArr [])] [(''dependencies'', JObj [])] ''replace'' =
     Inr [(''dependencies'', JArr [])] \<and>
   deep_merge semver_excerpt
     [(''version'', JStr ''x'')] [(''version'', JObj [(''a'', JStr ''1.0.0'')])] ''replace'' =
     Inr [(''version'', JObj [(''a'', JStr ''1.0.0'')])]"
  by code_simp

section \<open>Properties of the file merger\<close>

text \<open>
  C10. On the empty list of paths \<^verbatim>\<open>merge_package_json_files\<close> returns the empty
  object, and its trace is empty: no file is read and no merge step runs.
\<close>

theorem merge_package_json_files_empty:
  "merge_package_json_files L fs [] list_strategy = ([], Inr [])"
  by (simp add: merge_package_json_files_def)

end
